theory Spec2Isabelle
  imports Main "HOL-Library.Sublist"
begin

section \<open>Go strings\<close>

text \<open>
  A Go string is a sequence of bytes, here a \<open>string\<close> (a list of 8-bit characters).
  The functions of package \<open>strings\<close> and \<open>bytes\<close> that the builder calls are written
  out from their documentation: \<open>Index\<close> gives the position of the first instance of
  the separator, \<open>Replace\<close> with \<open>n = 1\<close> rewrites the first instance, \<open>ReplaceAll\<close> and
  \<open>Count\<close> work on the non-overlapping instances from left to right, \<open>Join\<close>
  concatenates with a separator. For the empty separator (no call site has one) they
  follow Go on single-byte runes.
\<close>

fun strIndex :: "string \<Rightarrow> string \<Rightarrow> nat option" where
  "strIndex [] sep = (if sep = [] then Some 0 else None)"
| "strIndex (c # cs) sep =
     (if prefix sep (c # cs) then Some 0 else map_option Suc (strIndex cs sep))"

definition strContains :: "string \<Rightarrow> string \<Rightarrow> bool" where
  "strContains s sub = (strIndex s sub \<noteq> None)"

definition strReplace1 :: "string \<Rightarrow> string \<Rightarrow> string \<Rightarrow> string" where
  "strReplace1 s old new =
     (case strIndex s old of
        None \<Rightarrow> s
      | Some i \<Rightarrow> take i s @ new @ drop (i + length old) s)"

function strReplaceAll :: "string \<Rightarrow> string \<Rightarrow> string \<Rightarrow> string" where
  "strReplaceAll [] old new = (if old = [] then new else [])"
| "strReplaceAll (c # cs) old new =
     (if old = [] then new @ c # strReplaceAll cs old new
      else if prefix old (c # cs) then new @ strReplaceAll (drop (length old) (c # cs)) old new
      else c # strReplaceAll cs old new)"
  by pat_completeness auto
termination
  by (relation "measure (\<lambda>(s, old, new). length s)") auto

function strCount :: "string \<Rightarrow> string \<Rightarrow> nat" where
  "strCount [] sub = (if sub = [] then 1 else 0)"
| "strCount (c # cs) sub =
     (if sub = [] then Suc (strCount cs sub)
      else if prefix sub (c # cs) then Suc (strCount (drop (length sub) (c # cs)) sub)
      else strCount cs sub)"
  by pat_completeness auto
termination
  by (relation "measure (\<lambda>(s, sub). length s)") auto

fun strJoin :: "string list \<Rightarrow> string \<Rightarrow> string" where
  "strJoin [] sep = []"
| "strJoin [x] sep = x"
| "strJoin (x # y # ys) sep = x @ sep @ strJoin (y # ys) sep"

text \<open>\<open>fmt.Sprintf("%d", n)\<close>: the decimal digits of an integer.\<close>

definition digit :: "nat \<Rightarrow> char" where
  "digit d = ''0123456789'' ! d"

function showNat :: "nat \<Rightarrow> string" where
  "showNat n = (if n < 10 then [digit n] else showNat (n div 10) @ [digit (n mod 10)])"
  by pat_completeness auto
termination
  by (relation "measure id") auto

declare showNat.simps [simp del]

definition showInt :: "int \<Rightarrow> string" where
  "showInt i = (if i < 0 then CHR ''-'' # showNat (nat (- i)) else showNat (nat i))"

section \<open>Values, errors and panics\<close>

text \<open>
  Errors are values. \<open>ExtraQuestionMark\<close> and \<open>MissingQuestionMark\<close> are the two
  messages of \<open>checkParamCounts\<close> (with the original text and the number of arguments),
  \<open>CannotJsonify\<close> wraps a failure of \<open>json.Marshal\<close>, \<open>UnsupportedRawType\<close> is
  \<open>paramToRaw\<close>'s (with the \<open>%T\<close> name of the value), \<open>ErrTooLong\<close> is
  \<open>bufio.ErrTooLong\<close>, \<open>External\<close> is an error handed in by code outside these
  files (a \<open>driver.Valuer\<close>, a nested query), and \<open>Joined\<close> is the result of
  \<open>errors.Join\<close>.
\<close>

datatype err =
    ExtraQuestionMark string nat
  | MissingQuestionMark string nat
  | CannotJsonify string
  | UnsupportedRawType string
  | ErrTooLong
  | ErrNoProgress
  | External string
  | Joined "err list"

text \<open>
  \<open>errors.Join\<close> drops the nil errors and returns nil when none is left.
\<close>

definition errorsJoin :: "err option list \<Rightarrow> err option" where
  "errorsJoin errs =
     (case List.map_filter id errs of [] \<Rightarrow> None | e # es \<Rightarrow> Some (Joined (e # es)))"

text \<open>
  A panic is the other way a call can end. \<open>IndexOutOfRange i n\<close> is the run-time
  panic of \<open>raws[i]\<close> on a slice of length \<open>n\<close>.
\<close>

datatype panic =
    MismatchedValf string
  | StringWithoutParameters string
  | UnsupportedExpressionType string
  | IndexOutOfRange nat nat

datatype json_kind = JsonMapT | JsonListT | JsonMapPtrT | JsonListPtrT

text \<open>
  A value of type \<open>any\<close>, by the dynamic types the type switches tell apart.
  \<open>IntV\<close> stands for the integer types \<open>paramToRaw\<close> lists (\<open>int\<close>, \<open>int8\<close> to
  \<open>int64\<close>, \<open>uint8\<close> to \<open>uint64\<close>), \<open>FloatV\<close> for a \<open>float32\<close> or \<open>float64\<close>
  given by its \<open>%v\<close> text (floating-point printing is not modelled). The types
  \<open>Query\<close>, \<open>JsonMap\<close>, \<open>JsonList\<close>, \<open>Embedded\<close> and the interface \<open>Embedder\<close> are
  declared outside the two files, so a value of one of them carries what the builder
  reads from it: \<open>EmbedderV t raw\<close> the result of \<open>RawValue()\<close>, \<open>ValuerV t r\<close> the
  result of \<open>Value()\<close>, \<open>JsonV k r\<close> the result of \<open>json.Marshal\<close> (\<open>Inl\<close> the
  failure), \<open>QueryPtr None\<close> the nil pointer and \<open>QueryPtr (Some (sql, params, e))\<close>
  a query whose \<open>toSql()\<close> returns \<open>(sql, params, e)\<close>. \<open>Other t\<close> is a value of any
  other type, \<open>t\<close> its \<open>%T\<close> name.
\<close>

datatype anyv =
    NilV
  | BoolV bool
  | IntV int
  | FloatV string
  | StrV string
  | IntPtr "int option"
  | StrPtr "string option"
  | IntSlice "int list"
  | IntPtrSlice "int option list"
  | StrSlice "string list"
  | StrPtrSlice "string option list"
  | AnySlice "anyv list"
  | QueryPtr "(string \<times> anyv list \<times> err option) option"
  | JsonV json_kind "string + string"
  | EmbeddedV string
  | EmbedderV string string
  | ValuerV string "err + anyv"
  | ExprV string "anyv list"
  | Other string

fun typeName :: "anyv \<Rightarrow> string" where
  "typeName NilV = ''<nil>''"
| "typeName (BoolV _) = ''bool''"
| "typeName (IntV _) = ''int''"
| "typeName (FloatV _) = ''float64''"
| "typeName (StrV _) = ''string''"
| "typeName (IntPtr _) = ''*int''"
| "typeName (StrPtr _) = ''*string''"
| "typeName (IntSlice _) = ''[]int''"
| "typeName (IntPtrSlice _) = ''[]*int''"
| "typeName (StrSlice _) = ''[]string''"
| "typeName (StrPtrSlice _) = ''[]*string''"
| "typeName (AnySlice _) = ''[]interface {}''"
| "typeName (QueryPtr _) = ''*bqb.Query''"
| "typeName (JsonV JsonMapT _) = ''bqb.JsonMap''"
| "typeName (JsonV JsonListT _) = ''bqb.JsonList''"
| "typeName (JsonV JsonMapPtrT _) = ''*bqb.JsonMap''"
| "typeName (JsonV JsonListPtrT _) = ''*bqb.JsonList''"
| "typeName (EmbeddedV _) = ''bqb.Embedded''"
| "typeName (EmbedderV t _) = t"
| "typeName (ValuerV t _) = t"
| "typeName (ExprV _ _) = ''bqb.Expr''"
| "typeName (Other t) = t"

section \<open>The formatted-fragment builder of utils.go\<close>

definition paramPh :: string where
  "paramPh = ''xX_PARAM_Xx''"

record QueryPart =
  Text :: string
  Params :: "anyv list"
  Errs :: "err list"

text \<open>
  \<open>convertArg\<close>: the type switch, in the order of its cases. Each slice case builds
  one placeholder per element and joins them with a comma.
\<close>

definition newPh :: "'a list \<Rightarrow> string list" where
  "newPh v = map (\<lambda>_. paramPh) v"

fun convertArg :: "string \<Rightarrow> anyv \<Rightarrow> string \<times> anyv list \<times> err list" where
  "convertArg text (EmbedderV t raw) = (strReplace1 text ''?'' raw, [], [])"
| "convertArg text (ValuerV t r) =
     (case r of
        Inl e \<Rightarrow> (strReplace1 text ''?'' paramPh, [], [e])
      | Inr val \<Rightarrow> (strReplace1 text ''?'' paramPh, [val], []))"
| "convertArg text (IntSlice v) =
     (strReplace1 text ''?'' (strJoin (newPh v) '',''), map IntV v, [])"
| "convertArg text (IntPtrSlice v) =
     (if length (newPh v) > 0
      then (strReplace1 text ''?'' (strJoin (newPh v) '',''), map IntPtr v, [])
      else (strReplace1 text ''?'' paramPh, map IntPtr v @ [NilV], []))"
| "convertArg text (StrSlice v) =
     (strReplace1 text ''?'' (strJoin (newPh v) '',''), map StrV v, [])"
| "convertArg text (StrPtrSlice v) =
     (if length (newPh v) > 0
      then (strReplace1 text ''?'' (strJoin (newPh v) '',''), map StrPtr v, [])
      else (strReplace1 text ''?'' paramPh, map StrPtr v @ [NilV], []))"
| "convertArg text (AnySlice v) =
     (strReplace1 text ''?'' (strJoin (newPh v) '',''), v, [])"
| "convertArg text (QueryPtr None) = (strReplace1 text ''?'' paramPh, [NilV], [])"
| "convertArg text (QueryPtr (Some (sql, params, e))) =
     (case e of
        Some x \<Rightarrow> (strReplace1 text ''?'' sql, [], [x])
      | None \<Rightarrow> (strReplace1 text ''?'' sql, params, []))"
| "convertArg text (JsonV k r) =
     (case r of
        Inl msg \<Rightarrow> (strReplace1 text ''?'' paramPh, [], [CannotJsonify msg])
      | Inr bytes \<Rightarrow> (strReplace1 text ''?'' paramPh, [StrV bytes], []))"
| "convertArg text (EmbeddedV v) = (strReplace1 text ''?'' v, [], [])"
| "convertArg text v = (strReplace1 text ''?'' paramPh, [v], [])"

definition checkParamCounts :: "string \<Rightarrow> string \<Rightarrow> anyv list \<Rightarrow> err option" where
  "checkParamCounts text original args =
     (if strCount text ''?'' > 0 then Some (ExtraQuestionMark original (length args))
      else if strCount text paramPh < length args
      then Some (MissingQuestionMark original (length args))
      else None)"

definition tempPh :: string where
  "tempPh = ''XXX___XXX''"

text \<open>The loop of \<open>makePart\<close> over the arguments, with the three variables it updates.\<close>

fun makePartLoop :: "string \<Rightarrow> anyv list \<Rightarrow> err list \<Rightarrow> anyv list
    \<Rightarrow> string \<times> anyv list \<times> err list" where
  "makePartLoop text newArgs errs [] = (text, newArgs, errs)"
| "makePartLoop text newArgs errs (arg # args) =
     (case convertArg text arg of
        (argText, fArgs, argErrs) \<Rightarrow>
          makePartLoop argText (newArgs @ fArgs)
            (if length argErrs > 0 then errs @ argErrs else errs) args)"

definition makePart :: "string \<Rightarrow> anyv list \<Rightarrow> QueryPart" where
  "makePart text args =
     (case makePartLoop (strReplaceAll text ''??'' tempPh) [] [] args of
        (text', newArgs, errs) \<Rightarrow>
          \<lparr>Text = strReplaceAll text' tempPh ''??'',
           Params = newArgs,
           Errs = (case checkParamCounts text' text newArgs of
                     Some e \<Rightarrow> errs @ [e]
                   | None \<Rightarrow> errs)\<rparr>)"

section \<open>The expression builder of the second file\<close>

text \<open>
  A call returns, panics, or runs forever. \<open>Diverges\<close> is only ever the result of
  the scanning loop on an empty marker.
\<close>

datatype 'a outcome = Returns 'a | Panics panic | Diverges

record Expr =
  F :: string
  V :: "anyv list"

definition tmpQ :: string where
  "tmpQ = ''1xXX1_Y_2XXx2''"

text \<open>
  \<open>Valf\<close>: the type switch has the three slice cases and a default; the slices are
  joined with a comma and a space.
\<close>

fun ValfArg :: "string \<Rightarrow> anyv \<Rightarrow> string \<times> anyv list" where
  "ValfArg newExpr (IntSlice v) =
     (strReplace1 newExpr ''?'' (strJoin (newPh v) '', ''), map IntV v)"
| "ValfArg newExpr (StrSlice v) =
     (strReplace1 newExpr ''?'' (strJoin (newPh v) '', ''), map StrV v)"
| "ValfArg newExpr (AnySlice v) =
     (strReplace1 newExpr ''?'' (strJoin (newPh v) '', ''), v)"
| "ValfArg newExpr v = (strReplace1 newExpr ''?'' paramPh, [v])"

fun ValfLoop :: "string \<Rightarrow> anyv list \<Rightarrow> anyv list \<Rightarrow> string \<times> anyv list" where
  "ValfLoop newExpr params [] = (newExpr, params)"
| "ValfLoop newExpr params (val # vals) =
     (case ValfArg newExpr val of
        (newExpr', ps) \<Rightarrow> ValfLoop newExpr' (params @ ps) vals)"

definition Valf :: "string \<Rightarrow> anyv list \<Rightarrow> Expr outcome" where
  "Valf expr vals =
     (case ValfLoop (strReplaceAll expr ''??'' tmpQ) [] vals of
        (newExpr, params) \<Rightarrow>
          if strContains newExpr ''?'' then Panics (MismatchedValf expr)
          else Returns \<lparr>F = strReplaceAll newExpr tmpQ ''?'', V = params\<rparr>)"






section \<open>The token-scanning replacer\<close>

text \<open>
  \<open>scanReplace\<close> drives a \<open>bufio.Scanner\<close> over a \<open>bytes.Buffer\<close> holding the
  statement. The scanner is modelled with the fields its \<open>Scan\<close> method works on:
  \<open>rd\<close> is what the buffer has not handed out yet, \<open>buf_len\<close> is \<open>len(s.buf)\<close>,
  \<open>window\<close> is \<open>s.buf[s.start:s.end]\<close> (so \<open>s.end\<close> is \<open>start + length window\<close>)
  and \<open>atEOF\<close> says that the reader has returned \<open>io.EOF\<close>. A new scanner has no
  buffer; the buffer starts at 4096 bytes, doubles when full, and may not pass
  \<open>MaxScanTokenSize\<close>, 64 KiB.
\<close>

record scanner =
  rd :: string
  buf_len :: nat
  start :: nat
  window :: string
  atEOF :: bool

definition scan_end :: "scanner \<Rightarrow> nat" where
  "scan_end s = start s + length (window s)"

definition startBufSize :: nat where
  "startBufSize = 4096"

definition maxTokenSize :: nat where
  "maxTokenSize = 64 * 1024"

definition NewScanner :: "string \<Rightarrow> scanner" where
  "NewScanner stmt = \<lparr>rd = stmt, buf_len = 0, start = 0, window = [], atEOF = False\<rparr>"

text \<open>
  The split function of \<open>scanReplace\<close>: the advance and the token (\<open>None\<close> for nil,
  which asks for more data); it never returns an error.
\<close>

definition splitFn :: "string \<Rightarrow> string \<Rightarrow> bool \<Rightarrow> nat \<times> string option" where
  "splitFn ph data eof =
     (if eof \<and> length data = 0 then (0, None)
      else case strIndex data ph of
             Some i \<Rightarrow>
               if i = 0 then (length ph, Some (take (length ph) data))
               else (i, Some (take i data))
           | None \<Rightarrow> if eof then (length data, Some data) else (0, None))"

definition advance :: "scanner \<Rightarrow> nat \<Rightarrow> scanner" where
  "advance s n = s\<lparr>start := start s + n, window := drop n (window s)\<rparr>"

text \<open>
  The part of \<open>Scan\<close> after "Must read more data": shift the window to the front of
  the buffer, grow a full buffer or give up with \<open>ErrTooLong\<close>, then read once. A read
  from a \<open>bytes.Buffer\<close> copies as much as fits, and returns \<open>io.EOF\<close> when nothing is
  left. (A read into no room would make no progress; with \<open>s.end \<le> len(s.buf)\<close>
  there is always room after the resize.)
\<close>

definition newSize :: "nat \<Rightarrow> nat" where
  "newSize n = min (if n * 2 = 0 then startBufSize else n * 2) maxTokenSize"

definition shift :: "scanner \<Rightarrow> scanner" where
  "shift s =
     (if start s > 0 \<and> (scan_end s = buf_len s \<or> start s > buf_len s div 2)
      then s\<lparr>start := 0\<rparr> else s)"

definition resize :: "scanner \<Rightarrow> err + scanner" where
  "resize s =
     (if scan_end s = buf_len s
      then (if buf_len s \<ge> maxTokenSize then Inl ErrTooLong
            else Inr (s\<lparr>buf_len := newSize (buf_len s), start := 0\<rparr>))
      else Inr s)"

definition readOnce :: "scanner \<Rightarrow> err + scanner" where
  "readOnce s =
     (let room = buf_len s - scan_end s; n = min room (length (rd s)) in
      if room = 0 then Inl ErrNoProgress
      else if rd s = [] then Inr (s\<lparr>atEOF := True\<rparr>)
      else Inr (s\<lparr>window := window s @ take n (rd s), rd := drop n (rd s)\<rparr>))"

definition readMore :: "scanner \<Rightarrow> err + scanner" where
  "readMore s = (case resize (shift s) of Inl e \<Rightarrow> Inl e | Inr s' \<Rightarrow> readOnce s')"

datatype scan_result = Token string scanner | Stop "err option"

lemma readMore_measure:
  "readMore s = Inr s' \<Longrightarrow> \<not> atEOF s \<Longrightarrow>
   (if atEOF s' then 0 else Suc (length (rd s'))) < Suc (length (rd s))"
  by (auto simp: readMore_def resize_def shift_def readOnce_def Let_def
           split: if_splits sum.splits)

text \<open>
  \<open>Scan\<close>: try the split function on the window (when there is data, or at the end
  of the input), return a token if it gave one, stop at the end of the input, and
  otherwise read more and try again. \<open>Stop e\<close> is \<open>Scan\<close> returning false, \<open>e\<close> what
  \<open>Err()\<close> then reports.
\<close>

function Scan :: "string \<Rightarrow> scanner \<Rightarrow> scan_result" where
  "Scan ph s =
     (case (if scan_end s > start s \<or> atEOF s then splitFn ph (window s) (atEOF s)
            else (0, None)) of
        (n, Some token) \<Rightarrow> Token token (advance s n)
      | (n, None) \<Rightarrow>
          if atEOF (advance s n) then Stop None
          else (case readMore (advance s n) of
                  Inl e \<Rightarrow> Stop (Some e)
                | Inr s' \<Rightarrow> Scan ph s'))"
  by pat_completeness auto
termination
proof (relation "measure (\<lambda>(ph, s). if atEOF s then 0 else Suc (length (rd s)))")
  show "wf (measure (\<lambda>(ph, s). if atEOF s then 0 else Suc (length (rd s))))"
    by simp
next
  fix ph :: string and s s' :: scanner and n :: nat
  assume "\<not> atEOF (advance s n)" and "readMore (advance s n) = Inr s'"
  from readMore_measure [OF this(2) this(1)]
  show "((ph, s'), (ph, s)) \<in> measure (\<lambda>(ph, s). if atEOF s then 0 else Suc (length (rd s)))"
    using \<open>\<not> atEOF (advance s n)\<close> by (simp add: advance_def)
qed

declare Scan.simps [simp del]

lemma strIndex_bound: "strIndex s sep = Some i \<Longrightarrow> i + length sep \<le> length s"
proof (induction s arbitrary: i)
  case Nil
  then show ?case by (simp split: if_splits)
next
  case (Cons c cs)
  then show ?case
    by (auto split: if_splits dest: prefix_length_le)
qed

lemma splitFn_Some:
  "splitFn ph data eof = (n, Some tok) \<Longrightarrow> tok = take n data \<and> n \<le> length data"
  by (auto simp: splitFn_def split: if_splits option.splits dest: strIndex_bound)

lemma splitFn_None: "splitFn ph data eof = (n, None) \<Longrightarrow> n = 0"
  by (auto simp: splitFn_def split: if_splits option.splits)

lemma readMore_data:
  "readMore s = Inr s' \<Longrightarrow> window s' @ rd s' = window s @ rd s"
  by (auto simp: readMore_def resize_def shift_def readOnce_def Let_def
           split: if_splits sum.splits)

text \<open>A token is cut from the front of the data the scanner still holds or can read.\<close>

lemma Scan_Token_data:
  "Scan ph s = Token txt s' \<Longrightarrow> window s @ rd s = txt @ window s' @ rd s'"
proof (induction ph s rule: Scan.induct)
  case (1 ph s)
  obtain n tok where sp:
    "(if scan_end s > start s \<or> atEOF s then splitFn ph (window s) (atEOF s)
      else (0, None)) = (n, tok)"
    by (cases "if scan_end s > start s \<or> atEOF s then splitFn ph (window s) (atEOF s)
               else (0, None)")
  show ?case
  proof (cases tok)
    case (Some t)
    with sp "1.prems" have eq: "txt = t" "s' = advance s n"
      by (simp_all add: Scan.simps [of ph s])
    from sp Some have "splitFn ph (window s) (atEOF s) = (n, Some t)"
      by (simp split: if_splits)
    from splitFn_Some [OF this] eq show ?thesis
      by (simp add: advance_def)
  next
    case None
    with sp "1.prems" obtain s1 where
      a: "\<not> atEOF (advance s n)" and b: "readMore (advance s n) = Inr s1"
      and c: "Scan ph s1 = Token txt s'"
      by (auto simp: Scan.simps [of ph s] split: if_splits sum.splits)
    from "1.IH" [OF sp [symmetric] _ a b c] None
    have "window s1 @ rd s1 = txt @ window s' @ rd s'" by simp
    moreover from sp None have "n = 0"
      by (auto split: if_splits dest: splitFn_None)
    ultimately show ?thesis
      using readMore_data [OF b] by (simp add: advance_def)
  qed
qed

text \<open>
  The loop of \<open>scanReplace\<close>: a token equal to the marker is replaced by \<open>fn(i)\<close>,
  any other is copied. The delegate may panic (\<open>raws[i]\<close> out of range), so it
  returns an outcome. The split function gives an empty token only for an empty marker,
  without advancing; the Go loop then scans the same window again and again.
\<close>

type_synonym replaceFn = "nat \<Rightarrow> string outcome"

function scanLoop :: "string \<Rightarrow> replaceFn \<Rightarrow> scanner \<Rightarrow> nat \<Rightarrow> string
    \<Rightarrow> (string \<times> err option) outcome" where
  "scanLoop replace fn s i sb =
     (case Scan replace s of
        Stop e \<Rightarrow> Returns (sb, e)
      | Token txt s' \<Rightarrow>
          if txt = [] then Diverges
          else if txt = replace
          then (case fn i of
                  Returns r \<Rightarrow> scanLoop replace fn s' (i + 1) (sb @ r)
                | Panics p \<Rightarrow> Panics p
                | Diverges \<Rightarrow> Diverges)
          else scanLoop replace fn s' i (sb @ txt))"
  by pat_completeness auto
termination
proof (relation "measure (\<lambda>(replace, fn, s, i, sb). length (window s @ rd s))")
  show "wf (measure (\<lambda>(replace, fn, s, i, sb). length (window s @ rd s)))"
    by simp
next
  fix replace :: string and fn :: replaceFn and s s' :: scanner and i :: nat
    and sb tk r :: string
  assume "Scan replace s = Token tk s'" and "tk \<noteq> []"
  from arg_cong [where f = length, OF Scan_Token_data [OF this(1)]] this(2)
  show "((replace, fn, s', i + 1, sb @ r), (replace, fn, s, i, sb))
          \<in> measure (\<lambda>(replace, fn, s, i, sb). length (window s @ rd s))"
    by simp
next
  fix replace :: string and fn :: replaceFn and s s' :: scanner and i :: nat
    and sb tk :: string
  assume "Scan replace s = Token tk s'" and "tk \<noteq> []"
  from arg_cong [where f = length, OF Scan_Token_data [OF this(1)]] this(2)
  show "((replace, fn, s', i, sb @ tk), (replace, fn, s, i, sb))
          \<in> measure (\<lambda>(replace, fn, s, i, sb). length (window s @ rd s))"
    by simp
qed

declare scanLoop.simps [simp del]

definition scanReplace :: "string \<Rightarrow> string \<Rightarrow> replaceFn \<Rightarrow> (string \<times> err option) outcome" where
  "scanReplace stmt replace fn = scanLoop replace fn (NewScanner stmt) 0 []"

record scan =
  pattern :: string
  fn :: replaceFn

text \<open>
  \<open>replaceWithScans\<close> runs the scans one after the other, each on the output of the
  one before, and joins their errors.
\<close>

fun replaceWithScansLoop :: "string \<Rightarrow> err option list \<Rightarrow> scan list
    \<Rightarrow> (string \<times> err option) outcome" where
  "replaceWithScansLoop inp errs [] = Returns (inp, errorsJoin errs)"
| "replaceWithScansLoop inp errs (s # ss) =
     (case scanReplace inp (pattern s) (fn s) of
        Returns (out, e) \<Rightarrow> replaceWithScansLoop out (errs @ [e]) ss
      | Panics p \<Rightarrow> Panics p
      | Diverges \<Rightarrow> Diverges)"

definition replaceWithScans :: "string \<Rightarrow> scan list \<Rightarrow> (string \<times> err option) outcome" where
  "replaceWithScans inp ss = replaceWithScansLoop inp [] ss"

section \<open>The dialect renderer\<close>

fun paramToRaw :: "anyv \<Rightarrow> err + string" where
  "paramToRaw (BoolV p) = Inr (if p then ''true'' else ''false'')"
| "paramToRaw (FloatV p) = Inr p"
| "paramToRaw (IntV p) = Inr (showInt p)"
| "paramToRaw (IntPtr None) = Inr ''NULL''"
| "paramToRaw (IntPtr (Some p)) = Inr (showInt p)"
| "paramToRaw (StrV p) = Inr ([CHR 0x27] @ p @ [CHR 0x27])"
| "paramToRaw (StrPtr None) = Inr ''NULL''"
| "paramToRaw (StrPtr (Some p)) = Inr ([CHR 0x27] @ p @ [CHR 0x27])"
| "paramToRaw NilV = Inr ''NULL''"
| "paramToRaw p = Inl (UnsupportedRawType (typeName p))"

text \<open>
  The dialect tags. \<open>Dialect\<close> and the tag \<open>SQL\<close> are declared outside the two
  files; the switch of \<open>dialectReplace\<close> tells four tags apart and has a default.
\<close>

datatype Dialect = PGSQL | MYSQL | RAW | SQL | OtherDialect string

text \<open>
  The first loop of the \<open>RAW\<close> case: it returns at the first parameter that
  \<open>paramToRaw\<close> refuses.
\<close>

fun rawsLoop :: "string list \<Rightarrow> anyv list \<Rightarrow> err + string list" where
  "rawsLoop raws [] = Inr raws"
| "rawsLoop raws (param # params) =
     (case paramToRaw param of
        Inl e \<Rightarrow> Inl e
      | Inr p \<Rightarrow> rawsLoop (raws @ [p]) params)"

definition rawAt :: "string list \<Rightarrow> replaceFn" where
  "rawAt raws i =
     (if i < length raws then Returns (raws ! i) else Panics (IndexOutOfRange i (length raws)))"

definition dialectReplace :: "Dialect \<Rightarrow> string \<Rightarrow> anyv list \<Rightarrow> (string \<times> err option) outcome" where
  "dialectReplace dialect sql params =
     (case dialect of
        RAW \<Rightarrow>
          (case rawsLoop [] params of
             Inl e \<Rightarrow> Returns ([], Some e)
           | Inr raws \<Rightarrow>
               replaceWithScans sql [\<lparr>pattern = paramPh, fn = rawAt raws\<rparr>])
      | MYSQL \<Rightarrow>
          replaceWithScans sql [\<lparr>pattern = paramPh, fn = (\<lambda>i. Returns ''?'')\<rparr>]
      | SQL \<Rightarrow>
          replaceWithScans sql [\<lparr>pattern = paramPh, fn = (\<lambda>i. Returns ''?'')\<rparr>]
      | PGSQL \<Rightarrow>
          replaceWithScans sql
            [\<lparr>pattern = ''??'', fn = (\<lambda>i. Returns ''?'')\<rparr>,
             \<lparr>pattern = paramPh, fn = (\<lambda>i. Returns (CHR ''$'' # showNat (i + 1)))\<rparr>]
      | OtherDialect d \<Rightarrow> Returns (sql, None))"

section \<open>Facts about the string functions\<close>

lemma strIndex_notin: "c \<notin> set s \<Longrightarrow> strIndex s (c # t) = None"
  by (induction s) (auto simp: prefix_Cons)

lemma strIndex_first: "c \<notin> set pre \<Longrightarrow> strIndex (pre @ c # post) [c] = Some (length pre)"
  by (induction pre) (auto simp: prefix_Cons)

lemma strReplace1_first:
  "c \<notin> set pre \<Longrightarrow> strReplace1 (pre @ c # post) [c] new = pre @ new @ post"
  by (simp add: strReplace1_def strIndex_first)

lemma strReplace1_none: "c \<notin> set s \<Longrightarrow> strReplace1 s (c # t) new = s"
  by (simp add: strReplace1_def strIndex_notin)




section \<open>The scanner against a plain tokenizer\<close>


















section \<open>The replacer against its contract (C2)\<close>



















section \<open>The numbered-placeholder dialect (C4)\<close>






















section \<open>Balance of tokens and parameters (C1)\<close>

lemmas eval_defs = makePart_def Valf_def tempPh_def tmpQ_def paramPh_def strReplace1_def
  strContains_def newPh_def checkParamCounts_def

text \<open>
  C1. The claim asks that a fragment whose placeholder tokens and parameters differ in
  number is reported. \<open>Valf\<close> only looks for a \<open>?\<close> that is left over: with more
  arguments than \<open>?\<close> marks it returns, without a panic, a fragment with one token
  and two parameters. \<open>makePart\<close> reports the same input as an error.
\<close>

theorem Valf_accepts_surplus_arguments:
  "Valf ''a = ?'' [IntV 1, IntV 2] = Returns \<lparr>F = ''a = xX_PARAM_Xx'', V = [IntV 1, IntV 2]\<rparr>
   \<and> strCount ''a = xX_PARAM_Xx'' paramPh = 1
   \<and> Errs (makePart ''a = ?'' [IntV 1, IntV 2]) = [MissingQuestionMark ''a = ?'' 2]"
  by (simp add: eval_defs)

section \<open>Nested queries (C5)\<close>

text \<open>
  C5, amended. In \<open>makePart\<close> a non-nil nested query whose \<open>toSql()\<close> succeeds has
  its SQL text put in place of the first \<open>?\<close> and its parameters appended, in
  order, after the parameters collected so far; when \<open>toSql()\<close> fails the text is
  still put in, the error is accumulated and no parameter is appended. \<open>Valf\<close> has no
  case for a nested expression: it binds the expression as one opaque parameter.
\<close>

theorem nested_query_inlined:
  "(CHR ''?'' \<notin> set pre \<longrightarrow>
      convertArg (pre @ ''?'' @ post) (QueryPtr (Some (sql, params, None)))
        = (pre @ sql @ post, params, []))
   \<and> makePartLoop text newArgs errs (QueryPtr (Some (sql, params, None)) # args)
       = makePartLoop (strReplace1 text ''?'' sql) (newArgs @ params) errs args
   \<and> makePartLoop text newArgs errs (QueryPtr (Some (sql, params, Some e)) # args)
       = makePartLoop (strReplace1 text ''?'' sql) newArgs (errs @ [e]) args
   \<and> ValfArg newExpr (ExprV f v) = (strReplace1 newExpr ''?'' paramPh, [ExprV f v])"
  by (simp add: strReplace1_first)

theorem nested_query_inlined_witness:
  "convertArg ''a IN (?) AND b = ?''
       (QueryPtr (Some (''SELECT x FROM t WHERE y = xX_PARAM_Xx'', [IntV 5], None)))
     = (''a IN (SELECT x FROM t WHERE y = xX_PARAM_Xx) AND b = ?'', [IntV 5], [])
   \<and> makePart ''a IN (?) AND b = ?''
       [QueryPtr (Some (''SELECT x FROM t WHERE y = xX_PARAM_Xx'', [IntV 5], None)), IntV 7]
     = \<lparr>Text = ''a IN (SELECT x FROM t WHERE y = xX_PARAM_Xx) AND b = xX_PARAM_Xx'',
        Params = [IntV 5, IntV 7], Errs = []\<rparr>"
  using nested_query_inlined [of "''a IN (''" "'') AND b = ?''"
      "''SELECT x FROM t WHERE y = xX_PARAM_Xx''" "[IntV 5]"]
  by (simp add: eval_defs)

text \<open>
  The example of the claim: the inner call gives an expression with one token and the
  parameter 5; the outer call does not inline it, its parameter list holds the
  expression itself.
\<close>

theorem Valf_binds_nested_expression_whole:
  "Valf ''x = ?'' [IntV 5] = Returns \<lparr>F = ''x = xX_PARAM_Xx'', V = [IntV 5]\<rparr>
   \<and> Valf ''?'' [ExprV ''x = xX_PARAM_Xx'' [IntV 5]]
       = Returns \<lparr>F = ''xX_PARAM_Xx'', V = [ExprV ''x = xX_PARAM_Xx'' [IntV 5]]\<rparr>"
  by (simp add: eval_defs)

section \<open>Empty sequences (C6)\<close>

text \<open>
  C6. The claim asks for one placeholder token and one null parameter for an empty
  sequence. \<open>convertArg\<close> does so for \<open>[]*int\<close> and \<open>[]*string\<close> only: for an empty
  \<open>[]int\<close>, \<open>[]string\<close> or \<open>[]any\<close> the \<open>?\<close> is replaced by the empty text and no
  parameter is bound, and \<open>Valf\<close> does the same.
\<close>

theorem empty_slice_binds_nothing:
  "makePart ''id IN (?)'' [IntSlice []] = \<lparr>Text = ''id IN ()'', Params = [], Errs = []\<rparr>
   \<and> makePart ''id IN (?)'' [StrSlice []] = \<lparr>Text = ''id IN ()'', Params = [], Errs = []\<rparr>
   \<and> makePart ''id IN (?)'' [AnySlice []] = \<lparr>Text = ''id IN ()'', Params = [], Errs = []\<rparr>
   \<and> makePart ''id IN (?)'' [IntPtrSlice []]
       = \<lparr>Text = ''id IN (xX_PARAM_Xx)'', Params = [NilV], Errs = []\<rparr>
   \<and> makePart ''id IN (?)'' [StrPtrSlice []]
       = \<lparr>Text = ''id IN (xX_PARAM_Xx)'', Params = [NilV], Errs = []\<rparr>
   \<and> Valf ''id IN (?)'' [IntSlice []] = Returns \<lparr>F = ''id IN ()'', V = []\<rparr>"
  by (simp add: eval_defs)

section \<open>Literal inlining of a parameter that has no literal (C7)\<close>

lemma rawsLoop_first_failure:
  "\<forall>p \<in> set ps. \<exists>r. paramToRaw p = Inr r \<Longrightarrow> paramToRaw q = Inl e \<Longrightarrow>
   rawsLoop raws (ps @ q # rest) = Inl e"
  by (induction ps arbitrary: raws) auto

lemma paramToRaw_error: "paramToRaw q = Inl e \<Longrightarrow> e = UnsupportedRawType (typeName q)"
  by (cases q rule: paramToRaw.cases) auto

text \<open>
  C7, amended. Under the literal-inlining dialect the parameters are converted in
  order before any text is scanned, and the conversion stops at the first parameter
  that has no SQL literal: \<open>dialectReplace\<close> returns the empty text and the error of
  that parameter alone (its unsupported type), whatever follows it in the list.
\<close>

theorem raw_returns_first_failure:
  assumes "\<forall>p \<in> set ps. \<exists>r. paramToRaw p = Inr r" and "paramToRaw q = Inl e"
  shows "dialectReplace RAW sql (ps @ q # rest) = Returns ([], Some e)
       \<and> e = UnsupportedRawType (typeName q)"
  using rawsLoop_first_failure [OF assms] paramToRaw_error [OF assms(2)]
  by (simp add: dialectReplace_def)

theorem raw_returns_first_failure_witness:
  "dialectReplace RAW ''xX_PARAM_Xx, xX_PARAM_Xx, xX_PARAM_Xx''
       [IntV 1, Other ''main.T'', Other ''main.U'']
     = Returns ([], Some (UnsupportedRawType ''main.T''))"
  using raw_returns_first_failure [of "[IntV 1]" "Other ''main.T''"
      "UnsupportedRawType ''main.T''" "''xX_PARAM_Xx, xX_PARAM_Xx, xX_PARAM_Xx''"
      "[Other ''main.U'']"]
  by simp

text \<open>
  The claim as it was written fails: with two parameters that cannot be converted, the
  error is the first one's only, and no text comes back.
\<close>

theorem raw_second_failure_is_dropped:
  "dialectReplace RAW ''a = xX_PARAM_Xx AND b = xX_PARAM_Xx'' [Other ''main.T'', Other ''main.U'']
     = Returns ([], Some (UnsupportedRawType ''main.T''))"
  by (simp add: dialectReplace_def)

section \<open>Escaped question marks in the builders (C8)\<close>







section \<open>Plain strings in a group (C9)\<close>







section \<open>Nil nested query (C10)\<close>

text \<open>
  C10. A nil \<open>*Query\<close> argument is treated as a scalar null: \<open>convertArg\<close> replaces
  the first \<open>?\<close> of the text by one placeholder token, produces the single parameter
  nil and no error; in the loop of \<open>makePart\<close> the nil is appended to the parameters
  and the error list is left as it was.
\<close>

theorem nil_query_is_null:
  "convertArg text (QueryPtr None) = (strReplace1 text ''?'' paramPh, [NilV], [])
   \<and> (CHR ''?'' \<notin> set pre \<longrightarrow>
        convertArg (pre @ ''?'' @ post) (QueryPtr None) = (pre @ paramPh @ post, [NilV], []))
   \<and> makePartLoop text newArgs errs (QueryPtr None # args)
     = makePartLoop (strReplace1 text ''?'' paramPh) (newArgs @ [NilV]) errs args"
  by (simp add: strReplace1_first)

theorem nil_query_is_null_witness:
  "convertArg ''a = ? AND b = ?'' (QueryPtr None) = (''a = xX_PARAM_Xx AND b = ?'', [NilV], [])
   \<and> makePart ''a = ? AND b = ?'' [QueryPtr None, IntV 3]
       = \<lparr>Text = ''a = xX_PARAM_Xx AND b = xX_PARAM_Xx'', Params = [NilV, IntV 3], Errs = []\<rparr>"
  using nil_query_is_null [of "''a = ? AND b = ?''" "''a = ''" "'' AND b = ?''"]
  by (simp add: eval_defs)

end
